theory Spec2Isabelle
  imports Main
begin

section \<open>Tortillas: log analysis and the scheduler's completion callback\<close>

text \<open>
  A shallow embedding of \<^verbatim>\<open>src/tortillas/log_analyzer.py\<close> (classes
  \<^verbatim>\<open>TestStatus\<close>, \<^verbatim>\<open>TestResult\<close>, \<^verbatim>\<open>LogAnalyzer\<close>) and of
  \<^verbatim>\<open>thread_callback\<close> in \<^verbatim>\<open>src/tortillas/test_runner.py\<close>.

  Python strings are modelled as \<open>string\<close>, a list of 8-bit characters read as the code
  points U+0000 to U+00FF. Python integers are \<open>int\<close>. Methods that mutate
  \<^verbatim>\<open>self\<close> take the result record and return the updated one.
\<close>

subsection \<open>Characters used by the source's string literals\<close>

abbreviation NL :: char where "NL \<equiv> CHR 0x0A"
abbreviation TAB :: char where "TAB \<equiv> CHR 0x09"
abbreviation CR :: char where "CR \<equiv> CHR 0x0D"
abbreviation BSL :: char where "BSL \<equiv> CHR 0x5C"
abbreviation SQ :: char where "SQ \<equiv> CHR 0x27"
abbreviation DQ :: char where "DQ \<equiv> CHR 0x22"

subsection \<open>Python built-ins the analyzer calls\<close>

text \<open>\<^verbatim>\<open>str.startswith\<close>.\<close>

definition startswith :: "string \<Rightarrow> string \<Rightarrow> bool" where
  "startswith s p = (take (length p) s = p)"

text \<open>
  The slice \<^verbatim>\<open>s[a:-k]\<close> for \<open>k > 0\<close>: the stop index \<open>len(s) - k\<close> is clamped at 0
  (truncating subtraction on \<open>nat\<close> does the same), and the slice is empty when the start
  is not before the stop.
\<close>

definition slice_to_neg :: "string \<Rightarrow> nat \<Rightarrow> nat \<Rightarrow> string" where
  "slice_to_neg s a k = drop a (take (length s - k) s)"

text \<open>\<^verbatim>\<open>sep.join(xs)\<close>.\<close>

fun join :: "string \<Rightarrow> string list \<Rightarrow> string" where
  "join sep [] = []"
| "join sep [x] = x"
| "join sep (x # y # ys) = x @ sep @ join sep (y # ys)"

text \<open>\<^verbatim>\<open>str(n)\<close> for an integer: decimal digits, a minus sign when negative.\<close>

definition digit_char :: "nat \<Rightarrow> char" where
  "digit_char d = ''0123456789'' ! d"

fun str_nat :: "nat \<Rightarrow> string" where
  "str_nat n = (if n < 10 then [digit_char n] else str_nat (n div 10) @ [digit_char (n mod 10)])"

definition str_int :: "int \<Rightarrow> string" where
  "str_int i = (if i < 0 then CHR ''-'' # str_nat (nat (- i)) else str_nat (nat i))"

text \<open>
  \<^verbatim>\<open>int(s)\<close> for a string, base 10; \<open>None\<close> stands for \<^verbatim>\<open>ValueError\<close>.
  Leading and trailing whitespace is skipped (tab, line feed, vertical tab, form feed,
  carriage return, space, and of the non-ASCII code points below U+0100 the two that
  Python counts as spaces, U+0085 and U+00A0); then an optional sign; then decimal digits,
  where a single underscore may stand between two digits. The interpreter's configurable
  limit on the number of digits is a process setting and is not part of the model.
\<close>

definition is_space :: "char \<Rightarrow> bool" where
  "is_space c = (of_char c \<in> {9, 10, 11, 12, 13, 32, 0x85, 0xA0 :: nat})"

definition is_digit :: "char \<Rightarrow> bool" where
  "is_digit c = (48 \<le> (of_char c :: nat) \<and> (of_char c :: nat) \<le> 57)"

definition digit_val :: "char \<Rightarrow> nat" where
  "digit_val c = of_char c - 48"

definition strip :: "string \<Rightarrow> string" where
  "strip s = rev (dropWhile is_space (rev (dropWhile is_space s)))"

fun digits_value :: "nat \<Rightarrow> string \<Rightarrow> nat option" where
  "digits_value acc [] = Some acc"
| "digits_value acc [c] = (if is_digit c then Some (10 * acc + digit_val c) else None)"
| "digits_value acc (c # d # ds) =
     (if is_digit c then digits_value (10 * acc + digit_val c) (d # ds)
      else if c = CHR ''_'' \<and> is_digit d then digits_value (10 * acc + digit_val d) ds
      else None)"

definition unsigned_value :: "string \<Rightarrow> nat option" where
  "unsigned_value body =
     (case body of
        [] \<Rightarrow> None
      | b # bs \<Rightarrow> if is_digit b then digits_value (digit_val b) bs else None)"

definition py_int :: "string \<Rightarrow> int option" where
  "py_int s =
     (case strip s of
        [] \<Rightarrow> None
      | c # cs \<Rightarrow>
          if c = CHR ''-'' then map_option (\<lambda>n. - int n) (unsigned_value cs)
          else if c = CHR ''+'' then map_option int (unsigned_value cs)
          else map_option int (unsigned_value (c # cs)))"

text \<open>
  \<^verbatim>\<open>repr(s)\<close> for a string. The quote is the double quote when the string holds a
  single quote and no double quote, the single quote otherwise. The quote and the backslash
  are escaped with a backslash; tab, line feed and carriage return are written
  \<^verbatim>\<open>\t\<close>, \<^verbatim>\<open>\n\<close>, \<^verbatim>\<open>\r\<close>; any other code point that is not printable (below
  U+0020, U+007F to U+00A0, U+00AD) is written \<^verbatim>\<open>\xhh\<close> with two lower-case
  hexadecimal digits; every other character stands for itself.
\<close>

definition hex_digit :: "nat \<Rightarrow> char" where
  "hex_digit d = ''0123456789abcdef'' ! d"

definition printable :: "char \<Rightarrow> bool" where
  "printable c =
     (let n = (of_char c :: nat)
      in (0x20 \<le> n \<and> n < 0x7F) \<or> (0xA1 \<le> n \<and> n \<noteq> 0xAD))"

definition repr_char :: "char \<Rightarrow> char \<Rightarrow> string" where
  "repr_char quote c =
     (if c = quote \<or> c = BSL then [BSL, c]
      else if c = TAB then [BSL, CHR ''t'']
      else if c = NL then [BSL, CHR ''n'']
      else if c = CR then [BSL, CHR ''r'']
      else if \<not> printable c
        then [BSL, CHR ''x'', hex_digit (of_char c div 16), hex_digit (of_char c mod 16)]
      else [c])"

definition repr_quote :: "string \<Rightarrow> char" where
  "repr_quote s = (if SQ \<in> set s \<and> DQ \<notin> set s then DQ else SQ)"

definition py_repr :: "string \<Rightarrow> string" where
  "py_repr s = repr_quote s # concat (map (repr_char (repr_quote s)) s) @ [repr_quote s]"

subsection \<open>TestStatus and TestResult\<close>

datatype TestStatus = PANIC | FAILED | TIMEOUT | SUCCESS | DISABLED | NOT_RUN

record TestResult =
  status :: TestStatus
  errors :: "string list"
  retry :: bool

text \<open>
  \<^verbatim>\<open>TestResult._set_status\<close> (an Isabelle name cannot begin with an underscore, and
  \<open>set_status\<close> is a field of the rule below): every member of the enumeration is truthy, so
  \<^verbatim>\<open>not status\<close> holds for \<^verbatim>\<open>None\<close> only.
\<close>

definition TestResult_set_status :: "TestResult \<Rightarrow> TestStatus option \<Rightarrow> TestResult" where
  "TestResult_set_status r st = (case st of None \<Rightarrow> r | Some s \<Rightarrow> r\<lparr>status := s\<rparr>)"

text \<open>\<^verbatim>\<open>TestResult.add_errors\<close>.\<close>

definition add_errors :: "TestResult \<Rightarrow> string list \<Rightarrow> TestStatus option \<Rightarrow> TestResult" where
  "add_errors r errs st =
     (if errs = [] then r
      else TestResult_set_status (r\<lparr>errors := errors r @ errs\<rparr>) st)"

text \<open>
  \<^verbatim>\<open>TestResult.check_exit_codes\<close>. The loop over the tokens either returns from the
  method at the first token that does not parse (\<open>Inl\<close>, the result returned) or runs to
  the end (\<open>Inr\<close>, the result and the flag \<^verbatim>\<open>unexpected_exit_codes\<close>).
\<close>

fun exit_codes_loop ::
  "int list \<Rightarrow> string list \<Rightarrow> TestResult \<Rightarrow> bool \<Rightarrow> TestResult + TestResult \<times> bool" where
  "exit_codes_loop expect [] r unexpected = Inr (r, unexpected)"
| "exit_codes_loop expect (exit_code # rest) r unexpected =
     (case py_int exit_code of
        None \<Rightarrow>
          Inl (r\<lparr>errors := errors r @ [''Failed to parse exit code '' @ exit_code],
                 status := FAILED, retry := True\<rparr>)
      | Some exit_code_int \<Rightarrow>
          if exit_code_int \<notin> set expect
          then exit_codes_loop expect rest
                 (r\<lparr>errors := errors r @ [''Unexpected exit code '' @ exit_code]\<rparr>) True
          else exit_codes_loop expect rest r unexpected)"

definition check_exit_codes ::
  "TestResult \<Rightarrow> string list \<Rightarrow> int list \<Rightarrow> TestStatus option \<Rightarrow> TestResult" where
  "check_exit_codes r exit_codes expect_exit_codes st =
     (if status r = PANIC then r
      else
        let r1 = (if exit_codes = [] then r\<lparr>errors := errors r @ [''Missing exit code!'']\<rparr>
                  else r)
        in if exit_codes = [] \<and> status r1 = SUCCESS then r1\<lparr>status := FAILED\<rparr>
           else
             (case exit_codes_loop expect_exit_codes exit_codes r1 False of
                Inl returned \<Rightarrow> returned
              | Inr (r2, unexpected) \<Rightarrow>
                  if unexpected
                  then TestResult_set_status
                         (r2\<lparr>errors := errors r2 @
                            [''Expected exit code(s): '' @
                               join '', '' (map str_int expect_exit_codes)]\<rparr>) st
                  else r2))"

subsection \<open>The test specification, the rules and the watchdog status\<close>

text \<open>
  Modelled from the spec: the class \<^verbatim>\<open>TestSpec\<close> (module \<^verbatim>\<open>test_specification\<close>) is
  not among the sources. These are the four attributes the analyzer reads, with the
  types the spec gives them; \<^verbatim>\<open>expect_stdout\<close> is an optional string and
  \<^verbatim>\<open>expect_exit_codes\<close> an optional list.
\<close>

record TestSpec =
  disabled :: bool
  expect_timeout :: bool
  expect_stdout :: "string option"
  expect_exit_codes :: "int list option"

text \<open>
  Modelled from the spec: the class \<^verbatim>\<open>AnalyzeConfigEntry\<close> (module
  \<^verbatim>\<open>tortillas_config\<close>) is not among the sources. The analyzer reads its \<^verbatim>\<open>name\<close>,
  its \<^verbatim>\<open>mode\<close> (compared with string literals) and its optional \<^verbatim>\<open>set_status\<close>
  (the name of a member of \<^verbatim>\<open>TestStatus\<close>).
\<close>

record AnalyzeConfigEntry =
  name :: string
  mode :: string
  set_status :: "string option"

text \<open>
  Modelled from the spec: the enumeration \<^verbatim>\<open>InterruptWatchdog.Status\<close> (module
  \<^verbatim>\<open>qemu_interface\<close>) is not among the sources; the spec lists its four members.
\<close>

datatype Status = Status_WAITING | Status_FOUND | Status_TIMEOUT | Status_STOPPED

text \<open>What the modelled code can raise: \<^verbatim>\<open>next\<close> on an exhausted generator, the lookup
  of a member of \<^verbatim>\<open>TestStatus\<close> by a name it does not have or the removal of a key a
  dictionary does not have, and \<^verbatim>\<open>pop\<close> on an empty list.\<close>

datatype error = StopIteration | KeyError string | IndexError

subsection \<open>TestResult.check_expect_stdout\<close>

text \<open>
  The loop \<^verbatim>\<open>for i, line in enumerate(logs)\<close>: \<open>n\<close> is \<^verbatim>\<open>len(logs)\<close>, \<open>i\<close> the
  index of the line at the head, \<open>actual_stdout\<close> the list built so far. The constant
  \<^verbatim>\<open>TORTILLAS_EXPECT_PREFIX\<close> (module \<^verbatim>\<open>constants\<close>, not among the sources) is the
  parameter \<open>prefix\<close>.
\<close>

fun expect_stdout_loop ::
  "string \<Rightarrow> nat \<Rightarrow> nat \<Rightarrow> string list \<Rightarrow> string list \<Rightarrow> string list" where
  "expect_stdout_loop prefix n i [] actual_stdout = actual_stdout"
| "expect_stdout_loop prefix n i (line # rest) actual_stdout =
     (if \<not> startswith line prefix then expect_stdout_loop prefix n (Suc i) rest actual_stdout
      else if int i = int n - 1
        then expect_stdout_loop prefix n (Suc i) rest
               (actual_stdout @ [slice_to_neg line (length prefix) 2])
      else expect_stdout_loop prefix n (Suc i) rest
               (actual_stdout @ [slice_to_neg line (length prefix) 1]))"

definition check_expect_stdout ::
  "string \<Rightarrow> TestResult \<Rightarrow> string list \<Rightarrow> TestSpec \<Rightarrow> TestStatus option \<Rightarrow> TestResult" where
  "check_expect_stdout prefix r logs test_spec st =
     (case expect_stdout test_spec of
        None \<Rightarrow> r
      | Some expect \<Rightarrow>
          if expect = [] then r
          else
            let actual = py_repr (concat (expect_stdout_loop prefix (length logs) 0 logs []));
                expected = py_repr expect
            in if actual \<noteq> expected
               then TestResult_set_status
                      (r\<lparr>errors := errors r @
                         [''Expected output:'' @ [NL] @ expected,
                          ''Actual output:'' @ [NL] @ actual]\<rparr>) st
               else r)"

subsection \<open>LogAnalyzer\<close>

text \<open>\<^verbatim>\<open>LogAnalyzer._get_config_entry_by_name\<close>: the first entry of that name;
  \<^verbatim>\<open>next\<close> raises \<^verbatim>\<open>StopIteration\<close> when there is none.\<close>

definition get_config_entry_by_name ::
  "AnalyzeConfigEntry list \<Rightarrow> string \<Rightarrow> error + AnalyzeConfigEntry" where
  "get_config_entry_by_name config nm =
     (case find (\<lambda>entry. name entry = nm) config of
        None \<Rightarrow> Inl StopIteration
      | Some entry \<Rightarrow> Inr entry)"

text \<open>\<^verbatim>\<open>TestStatus[s]\<close>: the member of that name, or \<^verbatim>\<open>KeyError\<close>.\<close>

definition TestStatus_of_name :: "string \<Rightarrow> error + TestStatus" where
  "TestStatus_of_name s =
     (if s = ''PANIC'' then Inr PANIC
      else if s = ''FAILED'' then Inr FAILED
      else if s = ''TIMEOUT'' then Inr TIMEOUT
      else if s = ''SUCCESS'' then Inr SUCCESS
      else if s = ''DISABLED'' then Inr DISABLED
      else if s = ''NOT_RUN'' then Inr NOT_RUN
      else Inl (KeyError s))"

text \<open>The local \<^verbatim>\<open>status\<close> of the loop body: \<^verbatim>\<open>None\<close> when \<^verbatim>\<open>set_status\<close> is
  \<^verbatim>\<open>None\<close> or the empty string.\<close>

definition entry_status :: "AnalyzeConfigEntry \<Rightarrow> error + TestStatus option" where
  "entry_status config_entry =
     (case set_status config_entry of
        None \<Rightarrow> Inr None
      | Some s \<Rightarrow>
          if s = [] then Inr None
          else (case TestStatus_of_name s of Inl e \<Rightarrow> Inl e | Inr t \<Rightarrow> Inr (Some t)))"

text \<open>The \<^verbatim>\<open>if\<close>/\<^verbatim>\<open>elif\<close> chain on \<^verbatim>\<open>config_entry.mode\<close>; a mode that matches none
  of the six literals does nothing.\<close>

definition apply_mode ::
  "string \<Rightarrow> TestSpec \<Rightarrow> AnalyzeConfigEntry \<Rightarrow> string list \<Rightarrow> TestStatus option \<Rightarrow>
   TestResult \<Rightarrow> TestResult" where
  "apply_mode prefix test_spec config_entry logs st r =
     (if mode config_entry = ''add_as_error'' then add_errors r logs st
      else if mode config_entry = ''add_as_error_join''
        then add_errors r [''```'' @ [NL] @ concat logs @ ''```'' @ [NL]] st
      else if mode config_entry = ''add_as_error_last'' then add_errors r (take 1 logs) st
      else if mode config_entry = ''retry''
        then (add_errors r [''Retry caused by '' @ name config_entry] None)\<lparr>retry := True\<rparr>
      else if mode config_entry = ''expect_stdout''
        then check_expect_stdout prefix r logs test_spec st
      else if mode config_entry = ''exit_codes''
        then check_exit_codes r logs
               (case expect_exit_codes test_spec of
                  None \<Rightarrow> [0]
                | Some codes \<Rightarrow> if codes = [] then [0] else codes) st
      else r)"

text \<open>One pass of the loop \<^verbatim>\<open>for entry_name, logs in log_data.items()\<close>.\<close>

definition analyze_entry ::
  "string \<Rightarrow> TestSpec \<Rightarrow> AnalyzeConfigEntry list \<Rightarrow> TestResult \<Rightarrow> string \<times> string list \<Rightarrow>
   error + TestResult" where
  "analyze_entry prefix test_spec config r item =
     (case get_config_entry_by_name config (fst item) of
        Inl e \<Rightarrow> Inl e
      | Inr config_entry \<Rightarrow>
          (case entry_status config_entry of
             Inl e \<Rightarrow> Inl e
           | Inr st \<Rightarrow> Inr (apply_mode prefix test_spec config_entry (snd item) st r)))"

text \<open>The loop itself. A dictionary iterates in insertion order, so \<^verbatim>\<open>log_data\<close> is
  the list of its items.\<close>

fun analyze_entries ::
  "string \<Rightarrow> TestSpec \<Rightarrow> AnalyzeConfigEntry list \<Rightarrow> TestResult \<Rightarrow> (string \<times> string list) list \<Rightarrow>
   error + TestResult" where
  "analyze_entries prefix test_spec config r [] = Inr r"
| "analyze_entries prefix test_spec config r (item # items) =
     (case analyze_entry prefix test_spec config r item of
        Inl e \<Rightarrow> Inl e
      | Inr r' \<Rightarrow> analyze_entries prefix test_spec config r' items)"

text \<open>\<^verbatim>\<open>LogAnalyzer.analyze\<close>; \<^verbatim>\<open>self.test_spec\<close> and \<^verbatim>\<open>self.config\<close> are arguments.\<close>

definition analyze ::
  "string \<Rightarrow> TestSpec \<Rightarrow> AnalyzeConfigEntry list \<Rightarrow> (string \<times> string list) list \<Rightarrow> Status \<Rightarrow>
   error + TestResult" where
  "analyze prefix test_spec config log_data ir_watchdog_status =
     (let result = \<lparr>status = SUCCESS, errors = [], retry = False\<rparr>
      in if disabled test_spec then Inr (result\<lparr>status := DISABLED\<rparr>)
         else
           let r1 = (if ir_watchdog_status = Status_STOPPED
                     then add_errors result
                            [''Test killed, because no more interrupts were coming''] None
                     else result);
               r2 = (if ir_watchdog_status = Status_TIMEOUT \<and> \<not> expect_timeout test_spec
                     then add_errors r1 [''Test execution timeout''] (Some TIMEOUT)
                     else r1)
           in analyze_entries prefix test_spec config r2 log_data)"

subsection \<open>The scheduler's completion callback\<close>

text \<open>
  \<^verbatim>\<open>run_tests\<close> of \<^verbatim>\<open>test_runner.py\<close> keeps a work queue and a dictionary of the
  running tests, both changed under one lock; \<^verbatim>\<open>thread_callback\<close> runs with the lock
  held, so it is a function on that state. The classes \<^verbatim>\<open>Test\<close>, \<^verbatim>\<open>TestResult\<close>
  (module \<^verbatim>\<open>test\<close>) and \<^verbatim>\<open>ProgressBar\<close> are not among the sources:
  \<^item> a test is its name, its \<^verbatim>\<open>repr\<close> (the key of the dictionary) and its result;
  \<^item> the result has the fields of the record above (the callback reads \<^verbatim>\<open>retry\<close> and
    \<^verbatim>\<open>status\<close>; \<^verbatim>\<open>panic\<close> is read for a log message only), and the constructor
    \<^verbatim>\<open>TestResult(test.name)\<close> is the parameter \<open>new_result\<close>;
  \<^item> the progress bar is the list of the \<^verbatim>\<open>update_counter\<close> calls made on it, each
    with the counter, the optional second argument and the optional \<^verbatim>\<open>incr\<close>;
  \<^item> of the dictionary only the keys matter (the values are thread handles).
  Logging is left out.
\<close>

record Test =
  test_name :: string
  test_repr :: string
  result :: TestResult

datatype Counter = Counter_RUNNING | Counter_FAIL | Counter_SUCCESS

datatype update_counter = Update_counter Counter "Counter option" "int option"

record Scheduler =
  test_queue :: "Test list"
  running_tests :: "string set"
  progress_bar :: "update_counter list"

definition thread_callback ::
  "(string \<Rightarrow> TestResult) \<Rightarrow> Scheduler \<Rightarrow> Test \<Rightarrow> error + Scheduler \<times> Test" where
  "thread_callback new_result s test =
     (if test_repr test \<notin> running_tests s then Inl (KeyError (test_repr test))
      else
        let s1 = s\<lparr>running_tests := running_tests s - {test_repr test}\<rparr>
        in if retry (result test)
           then
             let test' = test\<lparr>result := new_result (test_name test)\<rparr>;
                 s2 = s1\<lparr>progress_bar := progress_bar s1 @
                          [Update_counter Counter_RUNNING None (Some (- 1))]\<rparr>
             in Inr (s2\<lparr>test_queue := test_queue s2 @ [test']\<rparr>, test')
           else
             let counter_type = (if status (result test) = SUCCESS then Counter_SUCCESS
                                 else Counter_FAIL)
             in Inr (s1\<lparr>progress_bar := progress_bar s1 @
                          [Update_counter counter_type (Some Counter_RUNNING) None]\<rparr>, test))"

text \<open>\<^verbatim>\<open>run_test\<close>: the last test of the queue is taken off it and started; the
  test started is returned with the new state.\<close>

definition run_test :: "Scheduler \<Rightarrow> error + Scheduler \<times> Test" where
  "run_test s =
     (if test_queue s = [] then Inl IndexError
      else
        let test = last (test_queue s);
            s1 = s\<lparr>test_queue := butlast (test_queue s)\<rparr>;
            s2 = s1\<lparr>progress_bar := progress_bar s1 @
                     [Update_counter Counter_RUNNING None None]\<rparr>
        in Inr (s2\<lparr>running_tests := insert (test_repr test) (running_tests s2)\<rparr>, test))"

text \<open>The branch of \<^verbatim>\<open>_run\<close> taken when the virtual machine is not alive: the test is
  marked for retry and handed to the callback.\<close>

definition run_not_alive ::
  "(string \<Rightarrow> TestResult) \<Rightarrow> Scheduler \<Rightarrow> Test \<Rightarrow> error + Scheduler \<times> Test" where
  "run_not_alive new_result s test =
     thread_callback new_result s (test\<lparr>result := (result test)\<lparr>retry := True\<rparr>\<rparr>)"

section \<open>Properties\<close>

text \<open>Unfolding \<open>py_int\<close> on a literal.\<close>

lemmas py_int_eval =
  py_int_def strip_def is_space_def unsigned_value_def is_digit_def digit_val_def

subsection \<open>Disabled tests\<close>

text \<open>
  C1. When the test specification is disabled, \<open>analyze\<close> returns at once a result with
  status \<open>DISABLED\<close>, no error and \<open>retry\<close> false, whatever the log data, the rules and
  the watchdog status are: no rule is applied and nothing is raised.
\<close>

theorem analyze_disabled:
  "disabled test_spec \<Longrightarrow>
   analyze prefix test_spec config log_data ir_watchdog_status =
     Inr \<lparr>status = DISABLED, errors = [], retry = False\<rparr>"
  by (simp add: analyze_def)

theorem analyze_disabled_witness:
  "disabled \<lparr>disabled = True, expect_timeout = False, expect_stdout = Some ''ok'',
             expect_exit_codes = Some [0]\<rparr> \<and>
   analyze ''##EXPECT##''
     \<lparr>disabled = True, expect_timeout = False, expect_stdout = Some ''ok'',
        expect_exit_codes = Some [0]\<rparr>
     [\<lparr>name = ''panic'', mode = ''add_as_error'', set_status = Some ''PANIC''\<rparr>]
     [(''panic'', [''KERNEL PANIC'']), (''unknown'', [''x''])] Status_TIMEOUT
   = Inr \<lparr>status = DISABLED, errors = [], retry = False\<rparr>"
  using analyze_disabled
    [of "\<lparr>disabled = True, expect_timeout = False, expect_stdout = Some ''ok'',
            expect_exit_codes = Some [0]\<rparr>"
        "''##EXPECT##''"
        "[\<lparr>name = ''panic'', mode = ''add_as_error'', set_status = Some ''PANIC''\<rparr>]"
        "[(''panic'', [''KERNEL PANIC'']), (''unknown'', [''x''])]" Status_TIMEOUT]
  by simp

subsection \<open>The exit-code rule\<close>

text \<open>
  C2 (panic dominance). When the result's status is \<open>PANIC\<close>, \<open>check_exit_codes\<close> returns
  the result unchanged, whatever the exit-code lines, the expected codes and the status to
  set are: the status stays \<open>PANIC\<close>, no error is appended and \<open>retry\<close> is not set.
\<close>

theorem panic_dominance:
  "status r = PANIC \<Longrightarrow> check_exit_codes r exit_codes expect st = r"
  by (simp add: check_exit_codes_def)

theorem panic_dominance_witness:
  "status \<lparr>status = PANIC, errors = [''kernel panic''], retry = False\<rparr> = PANIC \<and>
   check_exit_codes \<lparr>status = PANIC, errors = [''kernel panic''], retry = False\<rparr>
     [''1'', ''x7''] [0] (Some FAILED)
   = \<lparr>status = PANIC, errors = [''kernel panic''], retry = False\<rparr>"
  using panic_dominance
    [of "\<lparr>status = PANIC, errors = [''kernel panic''], retry = False\<rparr>"
        "[''1'', ''x7'']" "[0]" "Some FAILED"]
  by simp

text \<open>
  C4, as amended. On a result with status \<open>SUCCESS\<close>, the exit-code lines \<open>["0"]\<close> with
  the expected codes \<open>[0]\<close> leave the result as it is; the lines \<open>["1"]\<close> append
  exactly the two errors "Unexpected exit code 1" and "Expected exit code(s): 0", and the
  status becomes the rule's \<open>setStatus\<close> when there is one and stays \<open>SUCCESS\<close> when
  there is none.
\<close>

theorem exit_code_round_trip:
  "check_exit_codes \<lparr>status = SUCCESS, errors = errs, retry = rt\<rparr> [''0''] [0] st
     = \<lparr>status = SUCCESS, errors = errs, retry = rt\<rparr> \<and>
   check_exit_codes \<lparr>status = SUCCESS, errors = errs, retry = rt\<rparr> [''1''] [0] st
     = \<lparr>status = (case st of None \<Rightarrow> SUCCESS | Some s \<Rightarrow> s),
        errors = errs @ [''Unexpected exit code 1'', ''Expected exit code(s): 0''],
        retry = rt\<rparr>"
  by (simp add: check_exit_codes_def py_int_eval TestResult_set_status_def str_int_def digit_char_def
           split: option.split)

theorem exit_code_round_trip_witness:
  "check_exit_codes \<lparr>status = SUCCESS, errors = [], retry = False\<rparr> [''1''] [0] (Some FAILED)
     = \<lparr>status = FAILED,
        errors = [''Unexpected exit code 1'', ''Expected exit code(s): 0''],
        retry = False\<rparr>"
  using exit_code_round_trip [of "[]" False "Some FAILED"] by simp

text \<open>
  C4 as stated takes \<open>FAILED\<close> for the status of a mismatch when the rule has no
  \<open>setStatus\<close>; the method then leaves the status alone.
\<close>

theorem exit_code_mismatch_keeps_success:
  "status (check_exit_codes \<lparr>status = SUCCESS, errors = [], retry = False\<rparr> [''1''] [0] None)
   \<noteq> FAILED"
  by (simp add: check_exit_codes_def py_int_eval TestResult_set_status_def str_int_def digit_char_def)

lemma exit_codes_loop_parse_failure:
  "\<forall>t\<in>set pre. py_int t \<noteq> None \<Longrightarrow> py_int bad = None \<Longrightarrow>
   exit_codes_loop expect (pre @ bad # post) r u =
     Inl (r\<lparr>errors := errors r @
              map (\<lambda>t. ''Unexpected exit code '' @ t)
                (filter (\<lambda>t. case py_int t of None \<Rightarrow> False | Some v \<Rightarrow> v \<notin> set expect) pre) @
              [''Failed to parse exit code '' @ bad],
            status := FAILED, retry := True\<rparr>)"
proof (induction pre arbitrary: r u)
  case Nil
  then show ?case by simp
next
  case (Cons t pre)
  then obtain v where v: "py_int t = Some v" by auto
  from Cons.prems have rest: "\<forall>t\<in>set pre. py_int t \<noteq> None" by simp
  show ?case
    using Cons.IH [OF rest Cons.prems(2)] v by simp
qed

text \<open>
  C5. When the exit-code rule is not skipped by the panic guard and some token of the
  list does not parse as an integer, the first such token \<open>bad\<close> ends the rule: the status
  is \<open>FAILED\<close>, \<open>retry\<close> is true, and the errors appended are one "Unexpected exit code"
  for each token before \<open>bad\<close> that parsed to a code not expected, then the one
  "Failed to parse exit code" error. Nothing after \<open>bad\<close> is looked at (the list cut
  after \<open>bad\<close> gives the same result), no "Expected exit code(s)" error is appended and
  the rule's \<open>setStatus\<close> is not applied.
\<close>

theorem parse_failure_aborts:
  assumes "status r \<noteq> PANIC"
      and "\<exists>t\<in>set exit_codes. py_int t = None"
  shows "\<exists>pre bad post.
           exit_codes = pre @ bad # post \<and>
           (\<forall>t\<in>set pre. py_int t \<noteq> None) \<and> py_int bad = None \<and>
           check_exit_codes r exit_codes expect st =
             r\<lparr>errors := errors r @
                  map (\<lambda>t. ''Unexpected exit code '' @ t)
                    (filter (\<lambda>t. case py_int t of None \<Rightarrow> False | Some v \<Rightarrow> v \<notin> set expect)
                       pre) @
                  [''Failed to parse exit code '' @ bad],
               status := FAILED, retry := True\<rparr> \<and>
           check_exit_codes r (pre @ [bad]) expect st =
             check_exit_codes r exit_codes expect st"
proof -
  from assms(2) obtain pre bad post
    where split: "exit_codes = pre @ bad # post"
      and bad: "py_int bad = None"
      and pre: "\<forall>t\<in>set pre. py_int t \<noteq> None"
    using split_list_first_prop [of exit_codes "\<lambda>t. py_int t = None"] by blast
  have full: "exit_codes_loop expect (pre @ bad # post) r False =
      Inl (r\<lparr>errors := errors r @
              map (\<lambda>t. ''Unexpected exit code '' @ t)
                (filter (\<lambda>t. case py_int t of None \<Rightarrow> False | Some v \<Rightarrow> v \<notin> set expect) pre) @
              [''Failed to parse exit code '' @ bad],
            status := FAILED, retry := True\<rparr>)"
    by (rule exit_codes_loop_parse_failure [OF pre bad])
  have short: "exit_codes_loop expect (pre @ [bad]) r False =
      exit_codes_loop expect (pre @ bad # post) r False"
    using exit_codes_loop_parse_failure [OF pre bad, of expect "[]" r False] full by simp
  have a: "check_exit_codes r exit_codes expect st =
             r\<lparr>errors := errors r @
                  map (\<lambda>t. ''Unexpected exit code '' @ t)
                    (filter (\<lambda>t. case py_int t of None \<Rightarrow> False | Some v \<Rightarrow> v \<notin> set expect)
                       pre) @
                  [''Failed to parse exit code '' @ bad],
               status := FAILED, retry := True\<rparr>"
    using assms(1) full by (simp add: check_exit_codes_def split)
  have b: "check_exit_codes r (pre @ [bad]) expect st = check_exit_codes r exit_codes expect st"
    using assms(1) short by (simp add: check_exit_codes_def split)
  from split pre bad a b show ?thesis by blast
qed

theorem parse_failure_aborts_witness:
  "check_exit_codes \<lparr>status = SUCCESS, errors = [], retry = False\<rparr>
     [''0'', ''3'', ''x7'', ''4'', ''y''] [0] (Some TIMEOUT)
   = \<lparr>status = FAILED,
      errors = [''Unexpected exit code 3'', ''Failed to parse exit code x7''],
      retry = True\<rparr>"
proof -
  let ?r = "\<lparr>status = SUCCESS, errors = [], retry = False\<rparr>"
  have h1: "status ?r \<noteq> PANIC" by simp
  have h2: "\<exists>t\<in>set [''0'', ''3'', ''x7'', ''4'', ''y'']. py_int t = None"
    by (simp add: py_int_eval)
  from parse_failure_aborts [OF h1 h2, of "[0]" "Some TIMEOUT"]
  obtain pre bad post where
    sp: "[''0'', ''3'', ''x7'', ''4'', ''y''] = pre @ bad # post" and
    pre: "\<forall>t\<in>set pre. py_int t \<noteq> None" and bad: "py_int bad = None" and
    eq: "check_exit_codes ?r [''0'', ''3'', ''x7'', ''4'', ''y''] [0] (Some TIMEOUT) =
          ?r\<lparr>errors := errors ?r @
                  map (\<lambda>t. ''Unexpected exit code '' @ t)
                    (filter (\<lambda>t. case py_int t of None \<Rightarrow> False | Some v \<Rightarrow> v \<notin> set [0])
                       pre) @
                  [''Failed to parse exit code '' @ bad],
               status := FAILED, retry := True\<rparr>"
    by blast
  have p0: "py_int ''0'' = Some 0" and p3: "py_int ''3'' = Some 3"
    and px: "py_int ''x7'' = None"
    by (simp_all add: py_int_eval)
  have "pre = [''0'', ''3''] \<and> bad = ''x7''"
  proof (cases pre)
    case Nil
    with sp bad p0 show ?thesis by simp
  next
    case (Cons a pre1)
    note c1 = Cons
    show ?thesis
    proof (cases pre1)
      case Nil
      with sp c1 bad p3 show ?thesis by simp
    next
      case (Cons b pre2)
      note c2 = Cons
      show ?thesis
      proof (cases pre2)
        case Nil
        with sp c1 c2 show ?thesis by simp
      next
        case (Cons c pre3)
        with sp c1 c2 have "c = ''x7''" by simp
        with Cons c1 c2 pre px show ?thesis by simp
      qed
    qed
  qed
  with eq p0 p3 show ?thesis by simp
qed

text \<open>
  C6. When the bucket of exit codes is empty and the status is not \<open>PANIC\<close>,
  \<open>check_exit_codes\<close> appends "Missing exit code!" and turns the status \<open>SUCCESS\<close> into
  \<open>FAILED\<close>; any other status is left as it is, and \<open>retry\<close> is not touched.
\<close>

theorem missing_exit_code:
  "status r \<noteq> PANIC \<Longrightarrow>
   check_exit_codes r [] expect st =
     r\<lparr>errors := errors r @ [''Missing exit code!''],
       status := (if status r = SUCCESS then FAILED else status r)\<rparr>"
  by (simp add: check_exit_codes_def)

theorem missing_exit_code_witness:
  "status \<lparr>status = TIMEOUT, errors = [''Test execution timeout''], retry = False\<rparr> \<noteq> PANIC \<and>
   check_exit_codes \<lparr>status = TIMEOUT, errors = [''Test execution timeout''], retry = False\<rparr>
     [] [0] (Some FAILED)
   = \<lparr>status = TIMEOUT, errors = [''Test execution timeout'', ''Missing exit code!''],
      retry = False\<rparr>"
  using missing_exit_code
    [of "\<lparr>status = TIMEOUT, errors = [''Test execution timeout''], retry = False\<rparr>"
        "[0]" "Some FAILED"]
  by simp

subsection \<open>The expected-stdout rule\<close>

text \<open>\<open>py_repr\<close> is injective: each character is written in a way that no other
  character's writing begins with, and the quote is the first character.\<close>

lemma hex_digit_inj:
  assumes "a < 16" "b < 16" "hex_digit a = hex_digit b"
  shows "a = b"
proof -
  have d: "distinct ''0123456789abcdef''" by simp
  have l: "length ''0123456789abcdef'' = 16" by simp
  from assms d l show "a = b"
    unfolding hex_digit_def by (simp add: nth_eq_iff_index_eq)
qed

lemma of_char_div_mod:
  assumes "(of_char c :: nat) div 16 = of_char d div 16"
      and "(of_char c :: nat) mod 16 = of_char d mod 16"
  shows "c = d"
proof -
  have "(of_char c :: nat) = of_char d"
    using assms by (metis div_mult_mod_eq)
  then show ?thesis by simp
qed

lemma of_char_div_16: "(of_char c :: nat) div 16 < 16"
proof -
  have "(of_char c :: nat) < 16 * 16" by simp
  then show ?thesis by (rule less_mult_imp_div_less)
qed

lemma repr_char_not_Nil: "repr_char q c \<noteq> []"
  by (simp add: repr_char_def)

lemma hex_digit_cases:
  "d < 16 \<Longrightarrow> hex_digit d \<in> set ''0123456789abcdef''"
  unfolding hex_digit_def by (rule nth_mem) simp

lemma hex_pair_inj:
  assumes "hex_digit (of_char c div 16) = hex_digit (of_char d div 16)"
      and "hex_digit (of_char c mod 16) = hex_digit (of_char d mod 16)"
  shows "c = d"
proof -
  have "(of_char c :: nat) div 16 = of_char d div 16"
    using assms(1) by (rule hex_digit_inj [OF of_char_div_16 of_char_div_16])
  moreover have "(of_char c :: nat) mod 16 = of_char d mod 16"
    using assms(2) by (rule hex_digit_inj [rotated 2]) simp_all
  ultimately show ?thesis by (rule of_char_div_mod)
qed

lemma repr_char_cases:
  "(repr_char q c = [c] \<and> c \<noteq> BSL) \<or>
   (repr_char q c = [BSL, c] \<and> (c = q \<or> c = BSL)) \<or>
   (repr_char q c = [BSL, CHR ''t''] \<and> c = TAB) \<or>
   (repr_char q c = [BSL, CHR ''n''] \<and> c = NL) \<or>
   (repr_char q c = [BSL, CHR ''r''] \<and> c = CR) \<or>
   (repr_char q c =
      [BSL, CHR ''x'', hex_digit (of_char c div 16), hex_digit (of_char c mod 16)])"
  by (simp add: repr_char_def)

lemma repr_char_prefix_free:
  assumes q: "q = SQ \<or> q = DQ"
      and eq: "repr_char q c @ r = repr_char q d @ r'"
  shows "c = d \<and> r = r'"
  using repr_char_cases [of q c] repr_char_cases [of q d] eq q
  by (elim disjE conjE) (auto dest: hex_pair_inj)

lemma repr_body_inj:
  assumes q: "q = SQ \<or> q = DQ"
  shows "concat (map (repr_char q) s) = concat (map (repr_char q) t) \<Longrightarrow> s = t"
proof (induction s arbitrary: t)
  case Nil
  then show ?case by (cases t) (simp_all add: repr_char_not_Nil)
next
  case (Cons c s)
  show ?case
  proof (cases t)
    case Nil
    with Cons.prems show ?thesis by (simp add: repr_char_not_Nil)
  next
    case (Cons d t')
    with Cons.prems have
      "repr_char q c @ concat (map (repr_char q) s) =
       repr_char q d @ concat (map (repr_char q) t')"
      by simp
    from repr_char_prefix_free [OF q this] Cons.IH [of t'] Cons show ?thesis by simp
  qed
qed

lemma repr_quote_cases: "repr_quote s = SQ \<or> repr_quote s = DQ"
  by (simp add: repr_quote_def)

lemma py_repr_inj: "py_repr s = py_repr t \<Longrightarrow> s = t"
proof -
  assume eq: "py_repr s = py_repr t"
  then have qq: "repr_quote s = repr_quote t" by (simp add: py_repr_def)
  with eq have "concat (map (repr_char (repr_quote s)) s) =
                concat (map (repr_char (repr_quote s)) t)"
    by (simp add: py_repr_def)
  then show "s = t" by (rule repr_body_inj [OF repr_quote_cases])
qed

text \<open>The loop, without the index: every marked line but the last of the bucket loses one
  character at its end, the last line of the bucket (when marked) loses two.\<close>

lemma expect_stdout_loop_eq:
  "n = i + length logs \<Longrightarrow>
   expect_stdout_loop prefix n i logs acc =
     acc @ map (\<lambda>line. slice_to_neg line (length prefix) 1)
             (filter (\<lambda>line. startswith line prefix) (butlast logs)) @
     (if logs \<noteq> [] \<and> startswith (last logs) prefix
      then [slice_to_neg (last logs) (length prefix) 2] else [])"
proof (induction logs arbitrary: i acc)
  case Nil
  then show ?case by simp
next
  case (Cons line rest)
  show ?case
  proof (cases "rest = []")
    case True
    with Cons.prems have "int i = int n - 1" by simp
    with True show ?thesis by simp
  next
    case False
    with Cons.prems have ne: "int i \<noteq> int n - 1" by auto
    from Cons.prems have n: "n = Suc i + length rest" by simp
    show ?thesis
      using False ne Cons.IH [OF n] by simp
  qed
qed

text \<open>
  C3, as amended. When the specification has a non-empty expected stdout,
  \<open>check_expect_stdout\<close> rebuilds the output from the lines that start with the marker:
  the marker is cut off, and so is the last character of the line, or the last two
  characters when the line is the last of the bucket, whatever these characters are; the
  pieces are joined. When the rebuilt output equals the expected one the result is
  unchanged; on any difference exactly two errors are appended, "Expected output:" with
  the \<open>repr\<close> of the expected string and "Actual output:" with that of the rebuilt
  one, and the rule's \<open>setStatus\<close> is applied when there is one.
\<close>

theorem expect_stdout_matching:
  assumes "expect_stdout test_spec = Some expect" and "expect \<noteq> []"
  shows "check_expect_stdout prefix r logs test_spec st =
    (let actual =
           concat (map (\<lambda>line. slice_to_neg line (length prefix) 1)
                     (filter (\<lambda>line. startswith line prefix) (butlast logs))) @
           (if logs \<noteq> [] \<and> startswith (last logs) prefix
            then slice_to_neg (last logs) (length prefix) 2 else [])
     in if actual = expect then r
        else r\<lparr>errors := errors r @
                 [''Expected output:'' @ [NL] @ py_repr expect,
                  ''Actual output:'' @ [NL] @ py_repr actual],
               status := (case st of None \<Rightarrow> status r | Some s \<Rightarrow> s)\<rparr>)"
proof -
  let ?actual = "concat (map (\<lambda>line. slice_to_neg line (length prefix) 1)
                     (filter (\<lambda>line. startswith line prefix) (butlast logs))) @
           (if logs \<noteq> [] \<and> startswith (last logs) prefix
            then slice_to_neg (last logs) (length prefix) 2 else [])"
  have loop: "concat (expect_stdout_loop prefix (length logs) 0 logs []) = ?actual"
    by (simp add: expect_stdout_loop_eq)
  have inj: "\<And>a b. (py_repr a = py_repr b) = (a = b)"
    using py_repr_inj by blast
  show ?thesis
    using assms
    by (simp add: check_expect_stdout_def Let_def loop inj TestResult_set_status_def
          split: option.split)
qed

theorem expect_stdout_matching_witness:
  "check_expect_stdout ''##EXPECT##'' \<lparr>status = SUCCESS, errors = [], retry = False\<rparr>
     [''##EXPECT##hi'' @ [NL], ''debug noise'', ''##EXPECT##world'' @ [NL, NL]]
     \<lparr>disabled = False, expect_timeout = False, expect_stdout = Some ''hiworld'',
        expect_exit_codes = None\<rparr> (Some FAILED)
   = \<lparr>status = SUCCESS, errors = [], retry = False\<rparr>"
proof -
  let ?spec = "\<lparr>disabled = False, expect_timeout = False, expect_stdout = Some ''hiworld'',
        expect_exit_codes = None\<rparr>"
  have h1: "expect_stdout ?spec = Some ''hiworld''" by simp
  have h2: "''hiworld'' \<noteq> []" by simp
  show ?thesis
    using expect_stdout_matching [OF h1 h2, of "''##EXPECT##''"
      "\<lparr>status = SUCCESS, errors = [], retry = False\<rparr>"
      "[''##EXPECT##hi'' @ [NL], ''debug noise'', ''##EXPECT##world'' @ [NL, NL]]"
      "Some FAILED"]
    by (simp add: startswith_def slice_to_neg_def)
qed

text \<open>
  C3 as stated has no mismatch for the lines \<open>["##EXPECT##hi", "##EXPECT##world\n"]\<close>
  and the expected output \<open>"hiworld"\<close>; the method rebuilds \<open>"hworl"\<close> and records
  the mismatch.
\<close>

theorem expect_stdout_example_mismatch:
  "check_expect_stdout ''##EXPECT##'' \<lparr>status = SUCCESS, errors = [], retry = False\<rparr>
     [''##EXPECT##hi'', ''##EXPECT##world'' @ [NL]]
     \<lparr>disabled = False, expect_timeout = False, expect_stdout = Some ''hiworld'',
        expect_exit_codes = None\<rparr> (Some FAILED)
   = \<lparr>status = FAILED,
      errors = [''Expected output:'' @ [NL] @ [SQ] @ ''hiworld'' @ [SQ],
                ''Actual output:'' @ [NL] @ [SQ] @ ''hworl'' @ [SQ]],
      retry = False\<rparr>"
  by (simp add: check_expect_stdout_def startswith_def slice_to_neg_def py_repr_def
        repr_quote_def repr_char_def printable_def TestResult_set_status_def)

subsection \<open>The rule modes\<close>

text \<open>
  C8. Under the mode \<open>add_as_error_last\<close> a bucket that is not empty contributes exactly
  one error, its first line (index 0), and the rule's \<open>setStatus\<close> is applied when
  there is one.
\<close>

theorem add_as_error_last_first_line:
  "find (\<lambda>entry. name entry = entry_name) config = Some config_entry \<Longrightarrow>
   mode config_entry = ''add_as_error_last'' \<Longrightarrow>
   entry_status config_entry = Inr st \<Longrightarrow>
   analyze_entry prefix test_spec config r (entry_name, first # rest) =
     Inr (r\<lparr>errors := errors r @ [first],
            status := (case st of None \<Rightarrow> status r | Some s \<Rightarrow> s)\<rparr>)"
  by (simp add: analyze_entry_def get_config_entry_by_name_def apply_mode_def add_errors_def
        TestResult_set_status_def split: option.split)

theorem add_as_error_last_first_line_witness:
  "analyze_entry ''##EXPECT##''
     \<lparr>disabled = False, expect_timeout = False, expect_stdout = None, expect_exit_codes = None\<rparr>
     [\<lparr>name = ''bt'', mode = ''add_as_error_last'', set_status = Some ''PANIC''\<rparr>]
     \<lparr>status = SUCCESS, errors = [], retry = False\<rparr>
     (''bt'', [''first line'', ''middle line'', ''last line''])
   = Inr \<lparr>status = PANIC, errors = [''first line''], retry = False\<rparr>"
proof -
  let ?ce = "\<lparr>name = ''bt'', mode = ''add_as_error_last'', set_status = Some ''PANIC''\<rparr>"
  have f: "find (\<lambda>entry. name entry = ''bt'') [?ce] = Some ?ce" by simp
  have m: "mode ?ce = ''add_as_error_last''" by simp
  have s: "entry_status ?ce = Inr (Some PANIC)"
    by (simp add: entry_status_def TestStatus_of_name_def)
  show ?thesis
    using add_as_error_last_first_line [OF f m s,
      of "''##EXPECT##''"
         "\<lparr>disabled = False, expect_timeout = False, expect_stdout = None,
            expect_exit_codes = None\<rparr>"
         "\<lparr>status = SUCCESS, errors = [], retry = False\<rparr>"
         "''first line''" "[''middle line'', ''last line'']"]
    by simp
qed

lemma find_filter_implied:
  "(\<And>x. P x \<Longrightarrow> Q x) \<Longrightarrow> find P (filter Q xs) = find P xs"
  by (induction xs) auto

lemma analyze_entry_filter:
  "fst item \<in> K \<Longrightarrow>
   analyze_entry prefix test_spec (filter (\<lambda>entry. name entry \<in> K) config) r item =
   analyze_entry prefix test_spec config r item"
proof -
  assume k: "fst item \<in> K"
  have "find (\<lambda>entry. name entry = fst item) (filter (\<lambda>entry. name entry \<in> K) config) =
        find (\<lambda>entry. name entry = fst item) config"
    by (rule find_filter_implied) (use k in simp)
  then show ?thesis
    by (simp add: analyze_entry_def get_config_entry_by_name_def)
qed

lemma analyze_entries_filter:
  "fst ` set items \<subseteq> K \<Longrightarrow>
   analyze_entries prefix test_spec (filter (\<lambda>entry. name entry \<in> K) config) r items =
   analyze_entries prefix test_spec config r items"
proof (induction items arbitrary: r)
  case Nil
  then show ?case by simp
next
  case (Cons item items)
  then have "fst item \<in> K" and "fst ` set items \<subseteq> K" by auto
  then show ?case
    using Cons.IH by (simp add: analyze_entry_filter split: sum.split)
qed

text \<open>
  C7, as amended. A rule applied to an empty bucket contributes nothing (no error is
  appended, the status and \<open>retry\<close> are unchanged) under the modes \<open>add_as_error\<close> and
  \<open>add_as_error_last\<close>; and a rule whose name is no key of the log data is never applied:
  dropping every such rule from the configuration leaves the outcome of \<open>analyze\<close> as it
  is. The other modes are not covered: the analyzer no longer skips empty buckets.
\<close>

theorem empty_bucket_inert:
  assumes "find (\<lambda>entry. name entry = entry_name) config = Some config_entry"
      and "mode config_entry = ''add_as_error'' \<or> mode config_entry = ''add_as_error_last''"
      and "entry_status config_entry = Inr st"
  shows "analyze_entry prefix test_spec config r (entry_name, []) = Inr r \<and>
         analyze prefix test_spec
           (filter (\<lambda>entry. name entry \<in> fst ` set log_data) config) log_data wd =
         analyze prefix test_spec config log_data wd"
proof
  show "analyze_entry prefix test_spec config r (entry_name, []) = Inr r"
    using assms
    by (auto simp add: analyze_entry_def get_config_entry_by_name_def apply_mode_def
          add_errors_def)
  show "analyze prefix test_spec
           (filter (\<lambda>entry. name entry \<in> fst ` set log_data) config) log_data wd =
         analyze prefix test_spec config log_data wd"
    by (simp add: analyze_def Let_def analyze_entries_filter)
qed

theorem empty_bucket_inert_witness:
  "analyze_entry ''##EXPECT##''
     \<lparr>disabled = False, expect_timeout = False, expect_stdout = None, expect_exit_codes = None\<rparr>
     [\<lparr>name = ''panic'', mode = ''add_as_error'', set_status = Some ''PANIC''\<rparr>,
      \<lparr>name = ''idle'', mode = ''add_as_error_join'', set_status = Some ''FAILED''\<rparr>]
     \<lparr>status = SUCCESS, errors = [], retry = False\<rparr> (''panic'', [])
   = Inr \<lparr>status = SUCCESS, errors = [], retry = False\<rparr> \<and>
   analyze ''##EXPECT##''
     \<lparr>disabled = False, expect_timeout = False, expect_stdout = None, expect_exit_codes = None\<rparr>
     [\<lparr>name = ''panic'', mode = ''add_as_error'', set_status = Some ''PANIC''\<rparr>,
      \<lparr>name = ''idle'', mode = ''add_as_error_join'', set_status = Some ''FAILED''\<rparr>]
     [(''panic'', [])] Status_FOUND
   = Inr \<lparr>status = SUCCESS, errors = [], retry = False\<rparr>"
proof -
  let ?ce = "\<lparr>name = ''panic'', mode = ''add_as_error'', set_status = Some ''PANIC''\<rparr>"
  let ?idle = "\<lparr>name = ''idle'', mode = ''add_as_error_join'', set_status = Some ''FAILED''\<rparr>"
  let ?spec = "\<lparr>disabled = False, expect_timeout = False, expect_stdout = None,
                 expect_exit_codes = None\<rparr>"
  let ?r = "\<lparr>status = SUCCESS, errors = [], retry = False\<rparr>"
  have f: "find (\<lambda>entry. name entry = ''panic'') [?ce, ?idle] = Some ?ce" by simp
  have m: "mode ?ce = ''add_as_error'' \<or> mode ?ce = ''add_as_error_last''" by simp
  have s: "entry_status ?ce = Inr (Some PANIC)"
    by (simp add: entry_status_def TestStatus_of_name_def)
  note t = empty_bucket_inert [OF f m s, of "''##EXPECT##''" ?spec ?r "[(''panic'', [])]" Status_FOUND]
  from t have one: "analyze_entry ''##EXPECT##'' ?spec [?ce, ?idle] ?r (''panic'', []) = Inr ?r"
    by simp
  from t have "analyze ''##EXPECT##'' ?spec [?ce, ?idle] [(''panic'', [])] Status_FOUND =
      analyze ''##EXPECT##'' ?spec [?ce] [(''panic'', [])] Status_FOUND"
    by simp
  also have "\<dots> = Inr ?r"
    by (simp add: analyze_def analyze_entry_def get_config_entry_by_name_def apply_mode_def
          add_errors_def entry_status_def TestStatus_of_name_def)
  finally show ?thesis using one by simp
qed

text \<open>
  C7 as stated includes the mode \<open>add_as_error_join\<close>: on an empty bucket it appends the
  empty fenced block as an error and applies \<open>setStatus\<close>.
\<close>

theorem empty_bucket_join_counterexample:
  "analyze ''##EXPECT##''
     \<lparr>disabled = False, expect_timeout = False, expect_stdout = None, expect_exit_codes = None\<rparr>
     [\<lparr>name = ''backtrace'', mode = ''add_as_error_join'', set_status = Some ''PANIC''\<rparr>]
     [(''backtrace'', [])] Status_FOUND
   = Inr \<lparr>status = PANIC, errors = [''```'' @ [NL] @ ''```'' @ [NL]], retry = False\<rparr>"
  by (simp add: analyze_def analyze_entry_def get_config_entry_by_name_def apply_mode_def
        add_errors_def entry_status_def TestStatus_of_name_def TestResult_set_status_def)

subsection \<open>The watchdog status\<close>

lemma check_expect_stdout_no_status:
  "\<exists>es. check_expect_stdout prefix r logs test_spec None = r\<lparr>errors := errors r @ es\<rparr>"
proof (cases "check_expect_stdout prefix r logs test_spec None = r")
  case True
  then have "check_expect_stdout prefix r logs test_spec None = r\<lparr>errors := errors r @ []\<rparr>"
    by simp
  then show ?thesis by blast
next
  case False
  then show ?thesis
    by (auto simp add: check_expect_stdout_def TestResult_set_status_def Let_def
          split: option.splits if_splits)
qed

lemma apply_mode_no_status:
  assumes "mode config_entry \<noteq> ''exit_codes''"
  shows "\<exists>es. apply_mode prefix test_spec config_entry logs None r =
           r\<lparr>errors := errors r @ es, retry := (retry r \<or> mode config_entry = ''retry'')\<rparr>"
proof -
  have same: "r\<lparr>errors := errors r @ [], retry := retry r\<rparr> = r" by simp
  consider (a) "mode config_entry = ''add_as_error''"
    | (j) "mode config_entry = ''add_as_error_join''"
    | (l) "mode config_entry = ''add_as_error_last''"
    | (rt) "mode config_entry = ''retry''"
    | (e) "mode config_entry = ''expect_stdout''"
    | (other) "mode config_entry \<notin> {''add_as_error'', ''add_as_error_join'',
         ''add_as_error_last'', ''retry'', ''expect_stdout'', ''exit_codes''}"
    using assms by auto
  then show ?thesis
  proof cases
    case a
    then have "apply_mode prefix test_spec config_entry logs None r =
        r\<lparr>errors := errors r @ logs, retry := (retry r \<or> mode config_entry = ''retry'')\<rparr>"
      by (simp add: apply_mode_def add_errors_def TestResult_set_status_def)
    then show ?thesis by blast
  next
    case j
    then have "apply_mode prefix test_spec config_entry logs None r =
        r\<lparr>errors := errors r @ [''```'' @ [NL] @ concat logs @ ''```'' @ [NL]],
          retry := (retry r \<or> mode config_entry = ''retry'')\<rparr>"
      by (simp add: apply_mode_def add_errors_def TestResult_set_status_def)
    then show ?thesis by blast
  next
    case l
    then have "apply_mode prefix test_spec config_entry logs None r =
        r\<lparr>errors := errors r @ take 1 logs, retry := (retry r \<or> mode config_entry = ''retry'')\<rparr>"
      by (simp add: apply_mode_def add_errors_def TestResult_set_status_def)
    then show ?thesis by blast
  next
    case rt
    then have "apply_mode prefix test_spec config_entry logs None r =
        r\<lparr>errors := errors r @ [''Retry caused by '' @ name config_entry],
          retry := (retry r \<or> mode config_entry = ''retry'')\<rparr>"
      by (simp add: apply_mode_def add_errors_def TestResult_set_status_def)
    then show ?thesis by blast
  next
    case e
    obtain es where "check_expect_stdout prefix r logs test_spec None = r\<lparr>errors := errors r @ es\<rparr>"
      using check_expect_stdout_no_status by blast
    with e have "apply_mode prefix test_spec config_entry logs None r =
        r\<lparr>errors := errors r @ es, retry := (retry r \<or> mode config_entry = ''retry'')\<rparr>"
      by (simp add: apply_mode_def)
    then show ?thesis by blast
  next
    case other
    then have "apply_mode prefix test_spec config_entry logs None r =
        r\<lparr>errors := errors r @ [], retry := (retry r \<or> mode config_entry = ''retry'')\<rparr>"
      by (simp add: apply_mode_def)
    then show ?thesis by blast
  qed
qed

lemma analyze_entries_no_status:
  assumes "\<forall>item\<in>set items. \<exists>ce. find (\<lambda>entry. name entry = fst item) config = Some ce \<and>
             set_status ce = None \<and> mode ce \<noteq> ''exit_codes''"
  shows "\<exists>es. analyze_entries prefix test_spec config r items =
           Inr (r\<lparr>errors := errors r @ es,
                  retry := (retry r \<or>
                    (\<exists>item\<in>set items. \<exists>ce.
                        find (\<lambda>entry. name entry = fst item) config = Some ce \<and>
                        mode ce = ''retry''))\<rparr>)"
  using assms
proof (induction items arbitrary: r)
  case Nil
  show ?case by (simp, rule exI [of _ "[]"], simp)
next
  case (Cons item items)
  from Cons.prems obtain ce where
    ce: "find (\<lambda>entry. name entry = fst item) config = Some ce"
    and ns: "set_status ce = None" and nx: "mode ce \<noteq> ''exit_codes''"
    by auto
  obtain es1 where
    one: "apply_mode prefix test_spec ce (snd item) None r =
            r\<lparr>errors := errors r @ es1, retry := (retry r \<or> mode ce = ''retry'')\<rparr>"
    using apply_mode_no_status [OF nx] by blast
  let ?r1 = "r\<lparr>errors := errors r @ es1, retry := (retry r \<or> mode ce = ''retry'')\<rparr>"
  have step: "analyze_entry prefix test_spec config r item = Inr ?r1"
    using ce ns one
    by (simp add: analyze_entry_def get_config_entry_by_name_def entry_status_def)
  from Cons.prems have rest:
    "\<forall>item\<in>set items. \<exists>ce. find (\<lambda>entry. name entry = fst item) config = Some ce \<and>
             set_status ce = None \<and> mode ce \<noteq> ''exit_codes''"
    by simp
  from Cons.IH [OF rest, of ?r1] obtain es2 where
    two: "analyze_entries prefix test_spec config ?r1 items =
           Inr (?r1\<lparr>errors := errors ?r1 @ es2,
                  retry := (retry ?r1 \<or>
                    (\<exists>item\<in>set items. \<exists>ce.
                        find (\<lambda>entry. name entry = fst item) config = Some ce \<and>
                        mode ce = ''retry''))\<rparr>)"
    by blast
  have "analyze_entries prefix test_spec config r (item # items) =
          Inr (r\<lparr>errors := errors r @ (es1 @ es2),
                  retry := (retry r \<or>
                    (\<exists>item\<in>set (item # items). \<exists>ce.
                        find (\<lambda>entry. name entry = fst item) config = Some ce \<and>
                        mode ce = ''retry''))\<rparr>)"
    using step two ce by auto
  then show ?case by blast
qed

text \<open>
  C10, as amended. When the watchdog status is \<open>STOPPED\<close> and the test is not disabled,
  \<open>analyze\<close> appends "Test killed, because no more interrupts were coming" and leaves
  the status \<open>SUCCESS\<close>: the rules start from that result. When no rule applied sets a
  status (every bucket has a rule, none with a \<open>setStatus\<close> and none of mode
  \<open>exit_codes\<close>), the result returned has status \<open>SUCCESS\<close> and an error list that
  begins with that error; \<open>retry\<close> is true exactly when one of the rules applied has the
  mode \<open>retry\<close>, and false otherwise.
\<close>

theorem stopped_keeps_success:
  assumes "\<not> disabled test_spec"
      and "\<forall>item\<in>set log_data. \<exists>ce. find (\<lambda>entry. name entry = fst item) config = Some ce \<and>
             set_status ce = None \<and> mode ce \<noteq> ''exit_codes''"
  shows "analyze prefix test_spec config log_data Status_STOPPED =
           analyze_entries prefix test_spec config
             \<lparr>status = SUCCESS,
                errors = [''Test killed, because no more interrupts were coming''],
                retry = False\<rparr> log_data \<and>
         (\<exists>es. analyze prefix test_spec config log_data Status_STOPPED =
            Inr \<lparr>status = SUCCESS,
                  errors = ''Test killed, because no more interrupts were coming'' # es,
                  retry = (\<exists>item\<in>set log_data. \<exists>ce.
                             find (\<lambda>entry. name entry = fst item) config = Some ce \<and>
                             mode ce = ''retry'')\<rparr>)"
proof -
  let ?r0 = "\<lparr>status = SUCCESS,
                errors = [''Test killed, because no more interrupts were coming''],
                retry = False\<rparr>"
  have start: "analyze prefix test_spec config log_data Status_STOPPED =
           analyze_entries prefix test_spec config ?r0 log_data"
    using assms(1) by (simp add: analyze_def add_errors_def TestResult_set_status_def)
  obtain es where "analyze_entries prefix test_spec config ?r0 log_data =
           Inr (?r0\<lparr>errors := errors ?r0 @ es,
                  retry := (retry ?r0 \<or>
                    (\<exists>item\<in>set log_data. \<exists>ce.
                        find (\<lambda>entry. name entry = fst item) config = Some ce \<and>
                        mode ce = ''retry''))\<rparr>)"
    using analyze_entries_no_status [OF assms(2)] by blast
  with start show ?thesis by simp
qed

theorem stopped_keeps_success_witness:
  "analyze ''##EXPECT##''
     \<lparr>disabled = False, expect_timeout = False, expect_stdout = None, expect_exit_codes = None\<rparr>
     [\<lparr>name = ''flaky'', mode = ''retry'', set_status = None\<rparr>,
      \<lparr>name = ''warn'', mode = ''add_as_error'', set_status = None\<rparr>]
     [(''warn'', [''w1''])] Status_STOPPED
   = Inr \<lparr>status = SUCCESS,
           errors = [''Test killed, because no more interrupts were coming'', ''w1''],
           retry = False\<rparr>"
proof -
  let ?spec = "\<lparr>disabled = False, expect_timeout = False, expect_stdout = None,
                 expect_exit_codes = None\<rparr>"
  let ?config = "[\<lparr>name = ''flaky'', mode = ''retry'', set_status = None\<rparr>,
      \<lparr>name = ''warn'', mode = ''add_as_error'', set_status = None\<rparr>]"
  have h1: "\<not> disabled ?spec" by simp
  have h2: "\<forall>item\<in>set [(''warn'', [''w1''])].
              \<exists>ce. find (\<lambda>entry. name entry = fst item) ?config = Some ce \<and>
                set_status ce = None \<and> mode ce \<noteq> ''exit_codes''"
    by simp
  from stopped_keeps_success [OF h1 h2, of "''##EXPECT##''"]
  have "analyze ''##EXPECT##'' ?spec ?config [(''warn'', [''w1''])] Status_STOPPED =
          analyze_entries ''##EXPECT##'' ?spec ?config
            \<lparr>status = SUCCESS,
               errors = [''Test killed, because no more interrupts were coming''],
               retry = False\<rparr> [(''warn'', [''w1''])]"
    by blast
  also have "\<dots> = Inr \<lparr>status = SUCCESS,
           errors = [''Test killed, because no more interrupts were coming'', ''w1''],
           retry = False\<rparr>"
    by (simp add: analyze_entry_def get_config_entry_by_name_def apply_mode_def
          add_errors_def entry_status_def TestResult_set_status_def)
  finally show ?thesis .
qed

text \<open>
  C10 as stated has \<open>retry\<close> false whenever no later rule sets a status; a rule of mode
  \<open>retry\<close> sets no status and sets \<open>retry\<close>.
\<close>

theorem stopped_retry_rule_sets_retry:
  "analyze ''##EXPECT##''
     \<lparr>disabled = False, expect_timeout = False, expect_stdout = None, expect_exit_codes = None\<rparr>
     [\<lparr>name = ''flaky'', mode = ''retry'', set_status = None\<rparr>]
     [(''flaky'', [])] Status_STOPPED
   = Inr \<lparr>status = SUCCESS,
           errors = [''Test killed, because no more interrupts were coming'',
                     ''Retry caused by flaky''],
           retry = True\<rparr>"
  by (simp add: analyze_def analyze_entry_def get_config_entry_by_name_def apply_mode_def
        add_errors_def entry_status_def TestResult_set_status_def)

subsection \<open>The completion callback\<close>

text \<open>
  C9. For a test that is among the running ones, the callback returns and frees the
  test's slot. When the result has \<open>retry\<close> set, the result is replaced by a fresh one,
  the same test is appended to the work queue (and is the test \<open>run_test\<close> starts next),
  and only the running counter is decremented: nothing is recorded as terminal. When
  \<open>retry\<close> is not set, the test and the queue are unchanged and the success or failure
  counter is updated. So whenever the callback records a terminal outcome, the result
  recorded has \<open>retry\<close> false. A test whose virtual machine is not alive is always put
  back on the queue.
\<close>

theorem retry_requeues:
  "test_repr test \<in> running_tests s \<Longrightarrow>
   (\<exists>s' test'. thread_callback new_result s test = Inr (s', test') \<and>
      running_tests s' = running_tests s - {test_repr test} \<and>
      (if retry (result test)
       then test' = test\<lparr>result := new_result (test_name test)\<rparr> \<and>
            test_queue s' = test_queue s @ [test'] \<and>
            progress_bar s' =
              progress_bar s @ [Update_counter Counter_RUNNING None (Some (- 1))] \<and>
            (\<exists>s''. run_test s' = Inr (s'', test'))
       else test' = test \<and> test_queue s' = test_queue s \<and>
            progress_bar s' =
              progress_bar s @
                [Update_counter
                   (if status (result test) = SUCCESS then Counter_SUCCESS else Counter_FAIL)
                   (Some Counter_RUNNING) None]) \<and>
      (\<forall>counter. progress_bar s' =
           progress_bar s @ [Update_counter counter (Some Counter_RUNNING) None] \<longrightarrow>
         \<not> retry (result test') \<and> result test' = result test \<and>
         test_queue s' = test_queue s)) \<and>
   (\<exists>s' test'. run_not_alive new_result s test = Inr (s', test') \<and>
      test' = test\<lparr>result := new_result (test_name test)\<rparr> \<and>
      test_queue s' = test_queue s @ [test'])"
  by (auto simp add: thread_callback_def run_not_alive_def run_test_def Let_def)

theorem retry_requeues_witness:
  "thread_callback (\<lambda>n. \<lparr>status = NOT_RUN, errors = [], retry = False\<rparr>)
     \<lparr>test_queue = [], running_tests = {''pthread1 run 0''}, progress_bar = []\<rparr>
     \<lparr>test_name = ''pthread1'', test_repr = ''pthread1 run 0'',
        result = \<lparr>status = FAILED, errors = [''Retry caused by qemu''], retry = True\<rparr>\<rparr>
   = Inr (\<lparr>test_queue =
             [\<lparr>test_name = ''pthread1'', test_repr = ''pthread1 run 0'',
                 result = \<lparr>status = NOT_RUN, errors = [], retry = False\<rparr>\<rparr>],
           running_tests = {},
           progress_bar = [Update_counter Counter_RUNNING None (Some (- 1))]\<rparr>,
          \<lparr>test_name = ''pthread1'', test_repr = ''pthread1 run 0'',
             result = \<lparr>status = NOT_RUN, errors = [], retry = False\<rparr>\<rparr>)"
proof -
  let ?new = "\<lambda>n::string. \<lparr>status = NOT_RUN, errors = [], retry = False\<rparr>"
  let ?s = "\<lparr>test_queue = [], running_tests = {''pthread1 run 0''}, progress_bar = []\<rparr>"
  let ?t = "\<lparr>test_name = ''pthread1'', test_repr = ''pthread1 run 0'',
        result = \<lparr>status = FAILED, errors = [''Retry caused by qemu''], retry = True\<rparr>\<rparr>"
  have h: "test_repr ?t \<in> running_tests ?s" by simp
  have r: "retry (result ?t)" by simp
  from retry_requeues [OF h, of ?new]
  obtain s' test' where
    cb: "thread_callback ?new ?s ?t = Inr (s', test')" and
    run: "running_tests s' = running_tests ?s - {test_repr ?t}" and
    br: "if retry (result ?t)
       then test' = ?t\<lparr>result := ?new (test_name ?t)\<rparr> \<and>
            test_queue s' = test_queue ?s @ [test'] \<and>
            progress_bar s' =
              progress_bar ?s @ [Update_counter Counter_RUNNING None (Some (- 1))] \<and>
            (\<exists>s''. run_test s' = Inr (s'', test'))
       else test' = ?t \<and> test_queue s' = test_queue ?s \<and>
            progress_bar s' =
              progress_bar ?s @
                [Update_counter
                   (if status (result ?t) = SUCCESS then Counter_SUCCESS else Counter_FAIL)
                   (Some Counter_RUNNING) None]"
    by blast
  from br r have t': "test' = ?t\<lparr>result := ?new (test_name ?t)\<rparr>"
    and q: "test_queue s' = test_queue ?s @ [test']"
    and p: "progress_bar s' =
              progress_bar ?s @ [Update_counter Counter_RUNNING None (Some (- 1))]"
    by simp_all
  have "s' = \<lparr>test_queue = test_queue s', running_tests = running_tests s',
               progress_bar = progress_bar s'\<rparr>"
    by simp
  with run q p t' cb show ?thesis by simp
qed

end
